theory Spec2Isabelle
  imports Main "HOL-Library.Word"
begin

unbundle bit_operations_syntax

section \<open>Results, errors and panics\<close>

text \<open>
  A Go function of the repository returns a value and an \<open>error\<close>, or panics. The three
  outcomes are the three constructors of \<open>result\<close>: \<open>Ok\<close> (the error is nil),
  \<open>Err\<close> (a returned error) and \<open>Panic\<close> (the goroutine aborts; nothing is returned).

  A function that has an effect (it writes to the encoder's sink, or it runs a callback
  that does) keeps what it did when it returns an error: its outcome is a \<open>ret\<close>, the
  returned \<open>error\<close> (\<open>None\<close> is nil) with the state it leaves, or a panic.
\<close>

type_synonym byte = "8 word"

datatype error =
    EOF
  | ErrInvalidCode byte
  | ErrStop
  | ErrTableNotFound
  | ErrIndexNotFound
  | ErrDocumentNotFound
  | ErrEval
  | ErrTypeMismatch

datatype panic =
    UnknownCustomCode byte
  | UnsupportedType byte
  | NilDereference

datatype 'a result = Ok 'a | Err error | Panic panic

fun rbind :: "'a result \<Rightarrow> ('a \<Rightarrow> 'b result) \<Rightarrow> 'b result" where
  "rbind (Ok x) f = f x"
| "rbind (Err e) f = Err e"
| "rbind (Panic p) f = Panic p"

datatype 's ret = Return "error option" 's | Crash panic

text \<open>
  \<open>andthen r k\<close> goes on with \<open>k\<close> from the state of \<open>r\<close> when \<open>r\<close> returned nil, and is
  \<open>r\<close> otherwise. \<open>reading r s k\<close> goes on with what a reader returned; when the reader
  failed, the state \<open>s\<close> reached so far is kept with the reader's error.
\<close>

fun andthen :: "'s ret \<Rightarrow> ('s \<Rightarrow> 's ret) \<Rightarrow> 's ret" where
  "andthen (Return None s) k = k s"
| "andthen (Return (Some e) s) k = Return (Some e) s"
| "andthen (Crash p) k = Crash p"

fun reading :: "'a result \<Rightarrow> 's \<Rightarrow> ('a \<Rightarrow> 's ret) \<Rightarrow> 's ret" where
  "reading (Ok x) s k = k x"
| "reading (Err e) s k = Return (Some e) s"
| "reading (Panic p) s k = Crash p"

fun returned :: "'s ret \<Rightarrow> 's result" where
  "returned (Return None s) = Ok s"
| "returned (Return (Some e) s) = Err e"
| "returned (Crash p) = Panic p"

section \<open>The value model\<close>

text \<open>
  \<open>document.Value\<close> is a type tag with a payload. The payload of a Document or an Array
  is an interface value; the codec sees two implementations of each: the materialised
  buffers (\<open>document.FieldBuffer\<close>, \<open>document.ValueBuffer\<close>) and the lazy handles over raw
  bytes (\<open>EncodedDocument\<close>, \<open>EncodedArray\<close>). A Double is held as its 64 IEEE-754 bits
  (\<open>math.Float64bits\<close>), which is what the wire format carries; Integer and Duration are
  64-bit two's complement words. Text and field names are Go strings, so byte sequences.
  The payload of a Blob is a byte slice, which may be nil: \<open>None\<close> is the nil slice and
  \<open>Some b\<close> a slice of the bytes \<open>b\<close>.
\<close>

datatype val =
    Null
  | Bool bool
  | Integer "64 word"
  | Double "64 word"
  | Text "byte list"
  | Blob "byte list option"
  | Duration "64 word"
  | Document doc
  | Array arr
and doc =
    FieldBuffer "(byte list \<times> val) list"
  | EncodedDocument "byte list"
and arr =
    ValueBuffer "val list"
  | EncodedArray "byte list"

datatype valuetype =
    NullValue | BoolValue | IntegerValue | DoubleValue | TextValue | BlobValue
  | DurationValue | DocumentValue | ArrayValue

fun Type :: "val \<Rightarrow> valuetype" where
  "Type Null = NullValue"
| "Type (Bool b) = BoolValue"
| "Type (Integer i) = IntegerValue"
| "Type (Double d) = DoubleValue"
| "Type (Text s) = TextValue"
| "Type (Blob b) = BlobValue"
| "Type (Duration d) = DurationValue"
| "Type (Document d) = DocumentValue"
| "Type (Array a) = ArrayValue"

section \<open>The MessagePack primitives\<close>

text \<open>
  Modelled from the spec: the primitives of the MessagePack library that codec.go imports
  (\<open>msgpack.Encoder\<close>, \<open>msgpack.Decoder\<close> and the \<open>codes\<close> package) are not part of the
  sources. The spec fixes them as the host binary container format's own canonical
  encodings; they are written here after the MessagePack format and the library's
  functions of these names: one marker byte, then big-endian lengths and payloads. A
  length is written through a conversion to an 8-, 16- or 32-bit unsigned integer, so it
  is taken modulo the width. \<open>EncodeInt64\<close> and \<open>EncodeFloat64\<close> keep the width: they
  write the marker of a 64-bit integer or double and eight bytes. \<open>EncodeBytes\<close> writes a
  nil slice as the nil marker.

  A reader fails on an input that ends too early and on a marker it has no case for. The
  readers of a length (\<open>bytesLen\<close>, \<open>DecodeMapLen\<close>, \<open>DecodeArrayLen\<close>) have a case for the
  nil marker: the length is then -1, which \<open>DecodeString\<close> reads as the empty string and
  \<open>DecodeBytes\<close> as the nil slice. \<open>DecodeMapLen\<close> steps over an extension header that
  precedes the map: the byte after the marker and the length bytes of the marker.
  \<open>DecodeNil\<close>, \<open>DecodeBool\<close>, \<open>DecodeInt64\<close> and \<open>DecodeFloat64\<close> are given with the
  markers on which \<open>DecodeValue\<close> calls them.
\<close>

definition Nil_c :: byte where "Nil_c = 0xc0"
definition False_c :: byte where "False_c = 0xc2"
definition True_c :: byte where "True_c = 0xc3"
definition Float :: byte where "Float = 0xca"
definition Double_c :: byte where "Double_c = 0xcb"
definition Uint8 :: byte where "Uint8 = 0xcc"
definition Uint16 :: byte where "Uint16 = 0xcd"
definition Uint32 :: byte where "Uint32 = 0xce"
definition Uint64 :: byte where "Uint64 = 0xcf"
definition Int8 :: byte where "Int8 = 0xd0"
definition Int16 :: byte where "Int16 = 0xd1"
definition Int32 :: byte where "Int32 = 0xd2"
definition Int64 :: byte where "Int64 = 0xd3"
definition FixedStrLow :: byte where "FixedStrLow = 0xa0"
definition Str8 :: byte where "Str8 = 0xd9"
definition Str16 :: byte where "Str16 = 0xda"
definition Str32 :: byte where "Str32 = 0xdb"
definition Bin8 :: byte where "Bin8 = 0xc4"
definition Bin16 :: byte where "Bin16 = 0xc5"
definition Bin32 :: byte where "Bin32 = 0xc6"
definition FixedArrayLow :: byte where "FixedArrayLow = 0x90"
definition Array16 :: byte where "Array16 = 0xdc"
definition Array32 :: byte where "Array32 = 0xdd"
definition FixedMapLow :: byte where "FixedMapLow = 0x80"
definition Map16 :: byte where "Map16 = 0xde"
definition Map32 :: byte where "Map32 = 0xdf"
definition FixExt1 :: byte where "FixExt1 = 0xd4"
definition FixExt2 :: byte where "FixExt2 = 0xd5"
definition FixExt4 :: byte where "FixExt4 = 0xd6"
definition FixExt8 :: byte where "FixExt8 = 0xd7"
definition FixExt16 :: byte where "FixExt16 = 0xd8"
definition Ext8 :: byte where "Ext8 = 0xc7"
definition Ext16 :: byte where "Ext16 = 0xc8"
definition Ext32 :: byte where "Ext32 = 0xc9"

lemmas codes_defs =
  Nil_c_def False_c_def True_c_def Float_def Double_c_def Uint8_def Uint16_def Uint32_def
  Uint64_def Int8_def Int16_def Int32_def Int64_def FixedStrLow_def Str8_def Str16_def
  Str32_def Bin8_def Bin16_def Bin32_def FixedArrayLow_def Array16_def Array32_def
  FixedMapLow_def Map16_def Map32_def FixExt1_def FixExt2_def FixExt4_def FixExt8_def
  FixExt16_def Ext8_def Ext16_def Ext32_def

definition IsFixedNum :: "byte \<Rightarrow> bool" where
  "IsFixedNum c \<longleftrightarrow> c \<le> 0x7f \<or> 0xe0 \<le> c"

definition IsFixedMap :: "byte \<Rightarrow> bool" where
  "IsFixedMap c \<longleftrightarrow> 0x80 \<le> c \<and> c \<le> 0x8f"

definition IsFixedArray :: "byte \<Rightarrow> bool" where
  "IsFixedArray c \<longleftrightarrow> 0x90 \<le> c \<and> c \<le> 0x9f"

definition IsFixedString :: "byte \<Rightarrow> bool" where
  "IsFixedString c \<longleftrightarrow> 0xa0 \<le> c \<and> c \<le> 0xbf"

definition IsString :: "byte \<Rightarrow> bool" where
  "IsString c \<longleftrightarrow> IsFixedString c \<or> c = Str8 \<or> c = Str16 \<or> c = Str32"

definition IsExt :: "byte \<Rightarrow> bool" where
  "IsExt c \<longleftrightarrow> (FixExt1 \<le> c \<and> c \<le> FixExt16) \<or> (Ext8 \<le> c \<and> c \<le> Ext32)"

subsection \<open>Writing\<close>

definition write1 :: "byte \<Rightarrow> nat \<Rightarrow> byte list" where
  "write1 c n = [c, of_nat n]"

definition write2 :: "byte \<Rightarrow> nat \<Rightarrow> byte list" where
  "write2 c n = [c, of_nat (n div 2 ^ 8), of_nat n]"

definition write4 :: "byte \<Rightarrow> nat \<Rightarrow> byte list" where
  "write4 c n = [c, of_nat (n div 2 ^ 24), of_nat (n div 2 ^ 16), of_nat (n div 2 ^ 8), of_nat n]"

definition be64 :: "64 word \<Rightarrow> byte list" where
  "be64 d = [ucast (drop_bit 56 d), ucast (drop_bit 48 d), ucast (drop_bit 40 d),
             ucast (drop_bit 32 d), ucast (drop_bit 24 d), ucast (drop_bit 16 d),
             ucast (drop_bit 8 d), ucast d]"

definition write8 :: "byte \<Rightarrow> 64 word \<Rightarrow> byte list" where
  "write8 c d = c # be64 d"

definition EncodeNil :: "byte list" where
  "EncodeNil = [Nil_c]"

definition EncodeBool :: "bool \<Rightarrow> byte list" where
  "EncodeBool b = (if b then [True_c] else [False_c])"

definition EncodeInt64 :: "64 word \<Rightarrow> byte list" where
  "EncodeInt64 n = write8 Int64 n"

definition EncodeFloat64 :: "64 word \<Rightarrow> byte list" where
  "EncodeFloat64 bits = write8 Double_c bits"

definition encodeStringLen :: "nat \<Rightarrow> byte list" where
  "encodeStringLen l =
     (if l < 32 then [FixedStrLow OR of_nat l]
      else if l < 256 then write1 Str8 l
      else if l < 65536 then write2 Str16 l
      else write4 Str32 l)"

definition EncodeString :: "byte list \<Rightarrow> byte list" where
  "EncodeString s = encodeStringLen (length s) @ s"

definition EncodeBytesLen :: "nat \<Rightarrow> byte list" where
  "EncodeBytesLen l =
     (if l < 256 then write1 Bin8 l
      else if l < 65536 then write2 Bin16 l
      else write4 Bin32 l)"

definition EncodeBytes :: "byte list option \<Rightarrow> byte list" where
  "EncodeBytes v = (case v of None \<Rightarrow> EncodeNil | Some b \<Rightarrow> EncodeBytesLen (length b) @ b)"

definition EncodeMapLen :: "nat \<Rightarrow> byte list" where
  "EncodeMapLen l =
     (if l < 16 then [FixedMapLow OR of_nat l]
      else if l < 65536 then write2 Map16 l
      else write4 Map32 l)"

definition EncodeArrayLen :: "nat \<Rightarrow> byte list" where
  "EncodeArrayLen l =
     (if l < 16 then [FixedArrayLow OR of_nat l]
      else if l < 65536 then write2 Array16 l
      else write4 Array32 l)"

definition encodeExtLen :: "nat \<Rightarrow> byte list" where
  "encodeExtLen l =
     (if l = 1 then [FixExt1]
      else if l = 2 then [FixExt2]
      else if l = 4 then [FixExt4]
      else if l = 8 then [FixExt8]
      else if l = 16 then [FixExt16]
      else if l < 256 then write1 Ext8 l
      else if l < 65536 then write2 Ext16 l
      else write4 Ext32 l)"

definition EncodeExtHeader :: "byte \<Rightarrow> nat \<Rightarrow> byte list" where
  "EncodeExtHeader extID extLen = encodeExtLen extLen @ [extID]"

subsection \<open>Reading\<close>

definition PeekCode :: "byte list \<Rightarrow> byte result" where
  "PeekCode bs = (case bs of [] \<Rightarrow> Err EOF | c # _ \<Rightarrow> Ok c)"

definition readCode :: "byte list \<Rightarrow> (byte \<times> byte list) result" where
  "readCode bs = (case bs of [] \<Rightarrow> Err EOF | c # r \<Rightarrow> Ok (c, r))"

definition ReadFull :: "nat \<Rightarrow> byte list \<Rightarrow> (byte list \<times> byte list) result" where
  "ReadFull n bs = (if length bs < n then Err EOF else Ok (take n bs, drop n bs))"

fun be_nat :: "byte list \<Rightarrow> nat" where
  "be_nat [] = 0"
| "be_nat (b # bs) = unat b * 256 ^ length bs + be_nat bs"

definition read_uint :: "nat \<Rightarrow> byte list \<Rightarrow> (nat \<times> byte list) result" where
  "read_uint k bs = rbind (ReadFull k bs) (\<lambda>(b, r). Ok (be_nat b, r))"

definition from_be64 :: "byte list \<Rightarrow> 64 word" where
  "from_be64 buf =
     push_bit 56 (ucast (buf ! 0)) OR push_bit 48 (ucast (buf ! 1)) OR
     push_bit 40 (ucast (buf ! 2)) OR push_bit 32 (ucast (buf ! 3)) OR
     push_bit 24 (ucast (buf ! 4)) OR push_bit 16 (ucast (buf ! 5)) OR
     push_bit 8 (ucast (buf ! 6)) OR ucast (buf ! 7)"

definition read_uint64 :: "byte list \<Rightarrow> (64 word \<times> byte list) result" where
  "read_uint64 bs = rbind (ReadFull 8 bs) (\<lambda>(b, r). Ok (from_be64 b, r))"

definition read_len :: "nat \<Rightarrow> byte list \<Rightarrow> (int \<times> byte list) result" where
  "read_len k bs = rbind (read_uint k bs) (\<lambda>(n, r). Ok (int n, r))"

definition bytesLen :: "byte \<Rightarrow> byte list \<Rightarrow> (int \<times> byte list) result" where
  "bytesLen c bs =
     (if c = Nil_c then Ok (- 1, bs)
      else if IsFixedString c then Ok (int (unat (c AND 0x1f)), bs)
      else if c = Str8 \<or> c = Bin8 then read_len 1 bs
      else if c = Str16 \<or> c = Bin16 then read_len 2 bs
      else if c = Str32 \<or> c = Bin32 then read_len 4 bs
      else Err (ErrInvalidCode c))"

definition DecodeString :: "byte list \<Rightarrow> (byte list \<times> byte list) result" where
  "DecodeString bs =
     rbind (readCode bs) (\<lambda>(c, r).
     rbind (bytesLen c r) (\<lambda>(n, r').
     if n \<le> 0 then Ok ([], r') else ReadFull (nat n) r'))"

definition DecodeBytes :: "byte list \<Rightarrow> (byte list option \<times> byte list) result" where
  "DecodeBytes bs =
     rbind (readCode bs) (\<lambda>(c, r).
     rbind (bytesLen c r) (\<lambda>(n, r').
     if n = - 1 then Ok (None, r')
     else rbind (ReadFull (nat n) r') (\<lambda>(b, r''). Ok (Some b, r''))))"

definition DecodeNil :: "byte list \<Rightarrow> (unit \<times> byte list) result" where
  "DecodeNil bs =
     rbind (readCode bs) (\<lambda>(c, r). if c = Nil_c then Ok ((), r) else Err (ErrInvalidCode c))"

definition DecodeBool :: "byte list \<Rightarrow> (bool \<times> byte list) result" where
  "DecodeBool bs =
     rbind (readCode bs) (\<lambda>(c, r).
       if c = False_c then Ok (False, r)
       else if c = True_c then Ok (True, r)
       else Err (ErrInvalidCode c))"

definition sext :: "nat \<Rightarrow> nat \<Rightarrow> 64 word" where
  "sext k n = (if n < 2 ^ (8 * k - 1) then of_nat n else of_nat n - 2 ^ (8 * k))"

definition DecodeInt64 :: "byte list \<Rightarrow> (64 word \<times> byte list) result" where
  "DecodeInt64 bs =
     rbind (readCode bs) (\<lambda>(c, r).
       if c = Uint8 then rbind (read_uint 1 r) (\<lambda>(n, r'). Ok (of_nat n, r'))
       else if c = Int8 then rbind (read_uint 1 r) (\<lambda>(n, r'). Ok (sext 1 n, r'))
       else if c = Uint16 then rbind (read_uint 2 r) (\<lambda>(n, r'). Ok (of_nat n, r'))
       else if c = Int16 then rbind (read_uint 2 r) (\<lambda>(n, r'). Ok (sext 2 n, r'))
       else if c = Uint32 then rbind (read_uint 4 r) (\<lambda>(n, r'). Ok (of_nat n, r'))
       else if c = Int32 then rbind (read_uint 4 r) (\<lambda>(n, r'). Ok (sext 4 n, r'))
       else if c = Uint64 \<or> c = Int64 then read_uint64 r
       else Err (ErrInvalidCode c))"

definition DecodeFloat64 :: "byte list \<Rightarrow> (64 word \<times> byte list) result" where
  "DecodeFloat64 bs =
     rbind (readCode bs) (\<lambda>(c, r).
       if c = Double_c then read_uint64 r else Err (ErrInvalidCode c))"

definition parseExtLen :: "byte \<Rightarrow> byte list \<Rightarrow> (nat \<times> byte list) result" where
  "parseExtLen c bs =
     (if c = FixExt1 then Ok (1, bs)
      else if c = FixExt2 then Ok (2, bs)
      else if c = FixExt4 then Ok (4, bs)
      else if c = FixExt8 then Ok (8, bs)
      else if c = FixExt16 then Ok (16, bs)
      else if c = Ext8 then read_uint 1 bs
      else if c = Ext16 then read_uint 2 bs
      else if c = Ext32 then read_uint 4 bs
      else Err (ErrInvalidCode c))"

definition DecodeExtHeader :: "byte list \<Rightarrow> ((byte \<times> nat) \<times> byte list) result" where
  "DecodeExtHeader bs =
     rbind (readCode bs) (\<lambda>(c, r).
     rbind (parseExtLen c r) (\<lambda>(l, r').
     rbind (readCode r') (\<lambda>(tp, r''). Ok ((tp, l), r''))))"

definition extHeaderLen :: "byte \<Rightarrow> nat" where
  "extHeaderLen c = (if c = Ext8 then 1 else if c = Ext16 then 2 else if c = Ext32 then 4 else 0)"

definition skipExtHeader :: "byte \<Rightarrow> byte list \<Rightarrow> byte list result" where
  "skipExtHeader c bs =
     rbind (readCode bs) (\<lambda>(tp, r).
     rbind (ReadFull (extHeaderLen c) r) (\<lambda>(b, r'). Ok r'))"

definition mapLen :: "byte \<Rightarrow> byte list \<Rightarrow> (int \<times> byte list) result" where
  "mapLen c r =
     (if c = Nil_c then Ok (- 1, r)
      else if IsFixedMap c then Ok (int (unat (c AND 0x0f)), r)
      else if c = Map16 then read_len 2 r
      else if c = Map32 then read_len 4 r
      else Err (ErrInvalidCode c))"

definition DecodeMapLen :: "byte list \<Rightarrow> (int \<times> byte list) result" where
  "DecodeMapLen bs =
     rbind (readCode bs) (\<lambda>(c, r).
       if IsExt c then
         rbind (skipExtHeader c r) (\<lambda>r'.
         rbind (readCode r') (\<lambda>(c', r''). mapLen c' r''))
       else mapLen c r)"

definition arrayLen :: "byte \<Rightarrow> byte list \<Rightarrow> (int \<times> byte list) result" where
  "arrayLen c r =
     (if c = Nil_c then Ok (- 1, r)
      else if IsFixedArray c then Ok (int (unat (c AND 0x0f)), r)
      else if c = Array16 then read_len 2 r
      else if c = Array32 then read_len 4 r
      else Err (ErrInvalidCode c))"

definition DecodeArrayLen :: "byte list \<Rightarrow> (int \<times> byte list) result" where
  "DecodeArrayLen bs = rbind (readCode bs) (\<lambda>(c, r). arrayLen c r)"

text \<open>
  \<open>DecodeRaw\<close> records the bytes of one value while skipping it. Skipping reads markers and
  lengths only: \<open>skip_header\<close> gives, for a marker, the number of nested values that follow
  and the number of further bytes the value's own header and payload take; \<open>skip_values n\<close>
  skips \<open>n\<close> consecutive values and returns the rest of the input.
\<close>

definition skip_header :: "byte \<Rightarrow> byte list \<Rightarrow> (nat \<times> nat) result" where
  "skip_header c bs =
     (if IsFixedNum c then Ok (0, 0)
      else if IsFixedMap c then Ok (2 * unat (c AND 0x0f), 0)
      else if IsFixedArray c then Ok (unat (c AND 0x0f), 0)
      else if IsFixedString c then Ok (0, unat (c AND 0x1f))
      else if c = Nil_c \<or> c = False_c \<or> c = True_c then Ok (0, 0)
      else if c = Uint8 \<or> c = Int8 then Ok (0, 1)
      else if c = Uint16 \<or> c = Int16 then Ok (0, 2)
      else if c = Uint32 \<or> c = Int32 \<or> c = Float then Ok (0, 4)
      else if c = Uint64 \<or> c = Int64 \<or> c = Double_c then Ok (0, 8)
      else if c = Bin8 \<or> c = Str8 then rbind (read_uint 1 bs) (\<lambda>(n, r). Ok (0, 1 + n))
      else if c = Bin16 \<or> c = Str16 then rbind (read_uint 2 bs) (\<lambda>(n, r). Ok (0, 2 + n))
      else if c = Bin32 \<or> c = Str32 then rbind (read_uint 4 bs) (\<lambda>(n, r). Ok (0, 4 + n))
      else if c = Array16 then rbind (read_uint 2 bs) (\<lambda>(n, r). Ok (n, 2))
      else if c = Array32 then rbind (read_uint 4 bs) (\<lambda>(n, r). Ok (n, 4))
      else if c = Map16 then rbind (read_uint 2 bs) (\<lambda>(n, r). Ok (2 * n, 2))
      else if c = Map32 then rbind (read_uint 4 bs) (\<lambda>(n, r). Ok (2 * n, 4))
      else if c = FixExt1 then Ok (0, 2)
      else if c = FixExt2 then Ok (0, 3)
      else if c = FixExt4 then Ok (0, 5)
      else if c = FixExt8 then Ok (0, 9)
      else if c = FixExt16 then Ok (0, 17)
      else if c = Ext8 then rbind (read_uint 1 bs) (\<lambda>(n, r). Ok (0, 2 + n))
      else if c = Ext16 then rbind (read_uint 2 bs) (\<lambda>(n, r). Ok (0, 3 + n))
      else if c = Ext32 then rbind (read_uint 4 bs) (\<lambda>(n, r). Ok (0, 5 + n))
      else Err (ErrInvalidCode c))"

fun skip_values :: "nat \<Rightarrow> byte list \<Rightarrow> byte list result" where
  "skip_values 0 bs = Ok bs"
| "skip_values (Suc n) [] = Err EOF"
| "skip_values (Suc n) (c # bs) =
     (case skip_header c bs of
        Err e \<Rightarrow> Err e
      | Panic p \<Rightarrow> Panic p
      | Ok (k, m) \<Rightarrow> if length bs < m then Err EOF else skip_values (n + k) (drop m bs))"

definition DecodeRaw :: "byte list \<Rightarrow> (byte list \<times> byte list) result" where
  "DecodeRaw bs =
     rbind (skip_values 1 bs) (\<lambda>r. Ok (take (length bs - length r) bs, r))"

section \<open>The decoder of codec.go\<close>

definition DurationType :: byte where
  "DurationType = 0x1"

definition DecodeDocument :: "byte list \<Rightarrow> (doc \<times> byte list) result" where
  "DecodeDocument bs = rbind (DecodeRaw bs) (\<lambda>(r, rest). Ok (EncodedDocument r, rest))"

definition DecodeArray :: "byte list \<Rightarrow> (arr \<times> byte list) result" where
  "DecodeArray bs = rbind (DecodeRaw bs) (\<lambda>(r, rest). Ok (EncodedArray r, rest))"

text \<open>
  \<open>DecodeValue\<close> takes the unread input and returns the value with the input left after
  it. The branches are those of the source, in its order.
\<close>

definition DecodeValue :: "byte list \<Rightarrow> (val \<times> byte list) result" where
  "DecodeValue bs =
     rbind (PeekCode bs) (\<lambda>c.
       if IsFixedArray c \<or> c = Array16 \<or> c = Array32 then
         rbind (DecodeArray bs) (\<lambda>(a, r). Ok (Array a, r))
       else if IsFixedMap c \<or> c = Map16 \<or> c = Map32 then
         rbind (DecodeDocument bs) (\<lambda>(d, r). Ok (Document d, r))
       else if IsString c then
         rbind (DecodeString bs) (\<lambda>(s, r). Ok (Text s, r))
       else if IsExt c then
         rbind (DecodeExtHeader bs) (\<lambda>((tp, l), r).
           if tp \<noteq> DurationType then Panic (UnknownCustomCode tp)
           else rbind (ReadFull 8 r) (\<lambda>(buf, r'). Ok (Duration (from_be64 buf), r')))
       else if c = Nil_c then
         rbind (DecodeNil bs) (\<lambda>(u, r). Ok (Null, r))
       else if c = Bin8 \<or> c = Bin16 \<or> c = Bin32 then
         rbind (DecodeBytes bs) (\<lambda>(b, r). Ok (Blob b, r))
       else if c = True_c \<or> c = False_c then
         rbind (DecodeBool bs) (\<lambda>(b, r). Ok (Bool b, r))
       else if c = Int8 \<or> c = Int16 \<or> c = Int32 \<or> c = Int64 \<or>
               c = Uint8 \<or> c = Uint16 \<or> c = Uint32 \<or> c = Uint64 then
         rbind (DecodeInt64 bs) (\<lambda>(i, r). Ok (Integer i, r))
       else if c = Double_c then
         rbind (DecodeFloat64 bs) (\<lambda>(d, r). Ok (Double d, r))
       else Panic (UnsupportedType c))"

section \<open>Iteration over documents and arrays\<close>

text \<open>
  Modelled from the spec: the \<open>Iterate\<close> methods of the two Document and the two Array
  implementations, and \<open>document.Length\<close> and \<open>document.ArrayLength\<close>, are not part of
  the sources. A buffer is iterated in insertion order. A lazy handle decodes its fields
  or elements one at a time as the caller iterates: the length prefix first, then for each
  field its name and its value with \<open>DecodeValue\<close>, calling the visitor after each one; a
  decoding error and an error of the visitor both end the iteration. A length of -1, read
  from a nil marker, gives no turn of the loop. The visitor is a Go closure: what it did
  to its captured variables before the iteration failed stays done, so the state of type
  \<open>'s\<close> it threads is returned with the error. The two length functions iterate and count.
\<close>

fun iterate_buffer :: "'a list \<Rightarrow> ('a \<Rightarrow> 's \<Rightarrow> 's ret) \<Rightarrow> 's \<Rightarrow> 's ret" where
  "iterate_buffer [] fn s = Return None s"
| "iterate_buffer (x # xs) fn s = andthen (fn x s) (iterate_buffer xs fn)"

fun iterate_fields ::
  "nat \<Rightarrow> byte list \<Rightarrow> (byte list \<times> val \<Rightarrow> 's \<Rightarrow> 's ret) \<Rightarrow> 's \<Rightarrow> 's ret" where
  "iterate_fields 0 bs fn s = Return None s"
| "iterate_fields (Suc n) bs fn s =
     reading (DecodeString bs) s (\<lambda>(f, r).
     reading (DecodeValue r) s (\<lambda>(v, r').
     andthen (fn (f, v) s) (iterate_fields n r' fn)))"

fun iterate_elems ::
  "nat \<Rightarrow> byte list \<Rightarrow> (val \<Rightarrow> 's \<Rightarrow> 's ret) \<Rightarrow> 's \<Rightarrow> 's ret" where
  "iterate_elems 0 bs fn s = Return None s"
| "iterate_elems (Suc n) bs fn s =
     reading (DecodeValue bs) s (\<lambda>(v, r).
     andthen (fn v s) (iterate_elems n r fn))"

fun Iterate_doc :: "doc \<Rightarrow> (byte list \<times> val \<Rightarrow> 's \<Rightarrow> 's ret) \<Rightarrow> 's \<Rightarrow> 's ret" where
  "Iterate_doc (FieldBuffer fs) fn s = iterate_buffer fs fn s"
| "Iterate_doc (EncodedDocument bs) fn s =
     reading (DecodeMapLen bs) s (\<lambda>(l, r). iterate_fields (nat l) r fn s)"

fun Iterate_arr :: "arr \<Rightarrow> (val \<Rightarrow> 's \<Rightarrow> 's ret) \<Rightarrow> 's \<Rightarrow> 's ret" where
  "Iterate_arr (ValueBuffer vs) fn s = iterate_buffer vs fn s"
| "Iterate_arr (EncodedArray bs) fn s =
     reading (DecodeArrayLen bs) s (\<lambda>(l, r). iterate_elems (nat l) r fn s)"

definition Length :: "doc \<Rightarrow> nat result" where
  "Length d = returned (Iterate_doc d (\<lambda>_ n. Return None (Suc n)) 0)"

definition ArrayLength :: "arr \<Rightarrow> nat result" where
  "ArrayLength a = returned (Iterate_arr a (\<lambda>_ n. Return None (Suc n)) 0)"

section \<open>The encoder of codec.go\<close>

text \<open>
  The encoder writes into an in-memory buffer, so a write never fails and the
  \<open>err != nil\<close> branches after the writes of the MessagePack primitives are not taken.
  What can fail is the iteration of a lazy handle, and what it has written by then stays
  written: \<open>EncodeValue\<close>, \<open>EncodeDocument\<close> and \<open>EncodeArray\<close> return the bytes that the
  call appends to the sink together with the error. \<open>written w r\<close> is the sink after a
  call with outcome \<open>r\<close>, when it held \<open>w\<close> before. A value has one of the nine tags of
  the \<open>switch\<close> of \<open>EncodeValue\<close>, so the call of \<open>Encode\<close> after the \<open>switch\<close> is not
  reached.

  \<open>EncodeValue\<close>, \<open>EncodeDocument\<close> and \<open>EncodeArray\<close> call each other through the visitor
  they hand to \<open>Iterate\<close>. The recursion ends because a value handed to a visitor is smaller
  than its container: an element of a buffer is a part of it, and a value decoded by a lazy
  handle wraps at most the bytes after the handle's length prefix. \<open>vsz\<close>, \<open>dsz\<close> and
  \<open>asz\<close> measure this.
\<close>

fun written :: "byte list \<Rightarrow> byte list ret \<Rightarrow> byte list ret" where
  "written w (Return e b) = Return e (w @ b)"
| "written w (Crash p) = Crash p"

primrec vsz :: "val \<Rightarrow> nat" and dsz :: "doc \<Rightarrow> nat" and asz :: "arr \<Rightarrow> nat" where
  "vsz Null = 0"
| "vsz (Bool b) = 0"
| "vsz (Integer i) = 0"
| "vsz (Double d) = 0"
| "vsz (Text s) = 0"
| "vsz (Blob b) = 0"
| "vsz (Duration d) = 0"
| "vsz (Document d) = dsz d"
| "vsz (Array a) = asz a"
| "dsz (FieldBuffer fs) = Suc (sum_list (map snd (map (map_prod id vsz) fs)))"
| "dsz (EncodedDocument bs) = Suc (length bs)"
| "asz (ValueBuffer vs) = Suc (sum_list (map vsz vs))"
| "asz (EncodedArray bs) = Suc (length bs)"


lemma rbind_cong [fundef_cong]:
  "r = r' \<Longrightarrow> (\<And>x. r' = Ok x \<Longrightarrow> f x = f' x) \<Longrightarrow> rbind r f = rbind r' f'"
  by (cases r') auto

lemma reading_cong [fundef_cong]:
  "r = r' \<Longrightarrow> s = s' \<Longrightarrow> (\<And>x. r' = Ok x \<Longrightarrow> k x = k' x) \<Longrightarrow> reading r s k = reading r' s' k'"
  by (cases r') auto

lemma andthen_cong [fundef_cong]:
  assumes "r = r'" and "\<And>s. r' = Return None s \<Longrightarrow> k s = k' s"
  shows "andthen r k = andthen r' k'"
proof (cases r')
  case (Return e s)
  with assms show ?thesis by (cases e) auto
qed (use assms in auto)

lemma iterate_buffer_cong:
  "(\<And>x s. x \<in> set xs \<Longrightarrow> fn x s = fn' x s) \<Longrightarrow> iterate_buffer xs fn s = iterate_buffer xs fn' s"
  by (induction xs arbitrary: s) (auto intro: andthen_cong)

lemma ReadFull_length: "ReadFull n bs = Ok (b, r) \<Longrightarrow> length r \<le> length bs \<and> length b = n \<and> bs = b @ r"
  by (auto simp: ReadFull_def split: if_splits)

lemma read_uint_length: "read_uint k bs = Ok (n, r) \<Longrightarrow> length r \<le> length bs"
  by (auto simp: read_uint_def ReadFull_def split: if_splits)

lemma readCode_Ok: "readCode bs = Ok (c, r) \<longleftrightarrow> bs = c # r"
  by (auto simp: readCode_def split: list.splits)

lemma rbind_Ok_iff: "rbind r f = Ok y \<longleftrightarrow> (\<exists>x. r = Ok x \<and> f x = Ok y)"
  by (cases r) auto

lemma read_len_Ok: "read_len k bs = Ok (l, r) \<longleftrightarrow> (\<exists>n. read_uint k bs = Ok (n, r) \<and> l = int n)"
  by (auto simp: read_len_def rbind_Ok_iff)

lemma bytesLen_length: "bytesLen c bs = Ok (n, r) \<Longrightarrow> length r \<le> length bs"
  by (auto simp: bytesLen_def read_len_Ok split: if_splits dest: read_uint_length)

lemma DecodeString_length: "DecodeString bs = Ok (s, r) \<Longrightarrow> length r < length bs"
  by (fastforce simp: DecodeString_def rbind_Ok_iff readCode_Ok split: if_splits
      dest: bytesLen_length ReadFull_length)


lemma skip_values_length:
  "skip_values n bs = Ok r \<Longrightarrow> length r + n \<le> length bs"
proof (induction n bs arbitrary: r rule: skip_values.induct)
  case (1 bs) then show ?case by simp
next
  case (2 n) then show ?case by simp
next
  case (3 n c bs)
  from "3.prems" obtain k m where h: "skip_header c bs = Ok (k, m)" "\<not> length bs < m"
    "skip_values (n + k) (drop m bs) = Ok r"
    by (auto split: result.splits if_splits)
  from "3.IH"[OF h(1) refl h(2) h(3)] show ?case by simp
qed

lemma DecodeRaw_length:
  "DecodeRaw bs = Ok (raw, r) \<Longrightarrow> length raw \<le> length bs \<and> length r < length bs"
  by (auto simp: DecodeRaw_def rbind_Ok_iff dest!: skip_values_length)


lemma read_uint64_length: "read_uint64 bs = Ok (n, r) \<Longrightarrow> length r \<le> length bs"
  by (auto simp: read_uint64_def ReadFull_def split: if_splits)

lemma DecodeNil_length: "DecodeNil bs = Ok (u, r) \<Longrightarrow> length r \<le> length bs"
  by (auto simp: DecodeNil_def rbind_Ok_iff readCode_Ok split: if_splits)

lemma DecodeBool_length: "DecodeBool bs = Ok (u, r) \<Longrightarrow> length r \<le> length bs"
  by (auto simp: DecodeBool_def rbind_Ok_iff readCode_Ok split: if_splits)

lemma DecodeBytes_length: "DecodeBytes bs = Ok (s, r) \<Longrightarrow> length r \<le> length bs"
  by (fastforce simp: DecodeBytes_def rbind_Ok_iff readCode_Ok split: if_splits
      dest: bytesLen_length ReadFull_length)

lemma DecodeInt64_length: "DecodeInt64 bs = Ok (i, r) \<Longrightarrow> length r \<le> length bs"
  by (auto simp: DecodeInt64_def rbind_Ok_iff readCode_Ok split: if_splits
      dest!: read_uint_length read_uint64_length)

lemma DecodeFloat64_length: "DecodeFloat64 bs = Ok (i, r) \<Longrightarrow> length r \<le> length bs"
  by (auto simp: DecodeFloat64_def rbind_Ok_iff readCode_Ok split: if_splits
      dest!: read_uint64_length)

lemma parseExtLen_length: "parseExtLen c bs = Ok (n, r) \<Longrightarrow> length r \<le> length bs"
  by (auto simp: parseExtLen_def split: if_splits dest: read_uint_length)

lemma DecodeExtHeader_length: "DecodeExtHeader bs = Ok (h, r) \<Longrightarrow> length r \<le> length bs"
  by (fastforce simp: DecodeExtHeader_def rbind_Ok_iff readCode_Ok dest: parseExtLen_length)

lemma DecodeValue_size:
  assumes "DecodeValue bs = Ok (v, r)"
  shows "vsz v \<le> Suc (length bs) \<and> length r \<le> length bs"
proof -
  from assms obtain c where c: "PeekCode bs = Ok c"
    by (auto simp: DecodeValue_def rbind_Ok_iff)
  show ?thesis
    using assms c
    unfolding DecodeValue_def DecodeArray_def DecodeDocument_def
    by (auto simp: rbind_Ok_iff split: if_splits
        dest!: DecodeRaw_length DecodeString_length DecodeNil_length DecodeBool_length
          DecodeBytes_length DecodeInt64_length DecodeFloat64_length DecodeExtHeader_length
          ReadFull_length)
qed

lemma mapLen_length: "mapLen c bs = Ok (n, r) \<Longrightarrow> length r \<le> length bs"
  by (auto simp: mapLen_def read_len_Ok split: if_splits dest!: read_uint_length)

lemma skipExtHeader_length: "skipExtHeader c bs = Ok r \<Longrightarrow> length r \<le> length bs"
  by (auto simp: skipExtHeader_def rbind_Ok_iff readCode_Ok dest!: ReadFull_length)

lemma DecodeMapLen_length: "DecodeMapLen bs = Ok (n, r) \<Longrightarrow> length r < length bs"
  by (auto simp: DecodeMapLen_def rbind_Ok_iff readCode_Ok split: if_splits
      dest!: mapLen_length skipExtHeader_length)

lemma DecodeArrayLen_length: "DecodeArrayLen bs = Ok (n, r) \<Longrightarrow> length r < length bs"
  by (auto simp: DecodeArrayLen_def arrayLen_def rbind_Ok_iff readCode_Ok read_len_Ok
      split: if_splits dest!: read_uint_length)

lemma iterate_fields_cong:
  "(\<And>x s. vsz (snd x) \<le> Suc (length bs) \<Longrightarrow> fn x s = fn' x s) \<Longrightarrow>
   iterate_fields n bs fn s = iterate_fields n bs fn' s"
proof (induction n arbitrary: bs s)
  case 0 show ?case by simp
next
  case (Suc n)
  show ?case
    apply simp
    apply (rule reading_cong[OF refl refl])
    apply (clarsimp)
    apply (rule reading_cong[OF refl refl])
    apply (clarsimp)
    apply (frule DecodeString_length)
    apply (frule DecodeValue_size)
    apply (rule andthen_cong)
     apply (rule Suc.prems) apply simp
    apply (rule Suc.IH)
    apply (rule Suc.prems) apply simp
    done
qed

lemma iterate_elems_cong:
  "(\<And>x s. vsz x \<le> Suc (length bs) \<Longrightarrow> fn x s = fn' x s) \<Longrightarrow>
   iterate_elems n bs fn s = iterate_elems n bs fn' s"
proof (induction n arbitrary: bs s)
  case 0 show ?case by simp
next
  case (Suc n)
  show ?case
    apply simp
    apply (rule reading_cong[OF refl refl])
    apply (clarsimp)
    apply (frule DecodeValue_size)
    apply (rule andthen_cong)
     apply (rule Suc.prems) apply simp
    apply (rule Suc.IH)
    apply (rule Suc.prems) apply simp
    done
qed

lemma vsz_member_fields: "x \<in> set fs \<Longrightarrow> vsz (snd x) < dsz (FieldBuffer fs)"
  by (induction fs) (auto simp: less_Suc_eq_le)

lemma vsz_member_elems: "x \<in> set vs \<Longrightarrow> vsz x < asz (ValueBuffer vs)"
  by (induction vs) (auto simp: less_Suc_eq_le)

lemma Iterate_doc_cong [fundef_cong]:
  "d = d' \<Longrightarrow> s = s' \<Longrightarrow> (\<And>x s. vsz (snd x) < dsz d' \<Longrightarrow> fn x s = fn' x s) \<Longrightarrow>
   Iterate_doc d fn s = Iterate_doc d' fn' s'"
  apply (cases d')
   apply (auto intro!: iterate_buffer_cong dest: vsz_member_fields)[1]
  apply clarsimp
  apply (rule reading_cong[OF refl refl])
  apply clarsimp
  apply (drule DecodeMapLen_length)
  apply (rule iterate_fields_cong)
  apply (case_tac x)
  apply simp
  done

lemma Iterate_arr_cong [fundef_cong]:
  "a = a' \<Longrightarrow> s = s' \<Longrightarrow> (\<And>x s. vsz x < asz a' \<Longrightarrow> fn x s = fn' x s) \<Longrightarrow>
   Iterate_arr a fn s = Iterate_arr a' fn' s'"
  apply (cases a')
   apply (auto intro!: iterate_buffer_cong dest: vsz_member_elems)[1]
  apply clarsimp
  apply (rule reading_cong[OF refl refl])
  apply clarsimp
  apply (drule DecodeArrayLen_length)
  apply (rule iterate_elems_cong)
  apply simp
  done

function EncodeValue :: "val \<Rightarrow> byte list ret"
  and EncodeDocument :: "doc \<Rightarrow> byte list ret"
  and EncodeArray :: "arr \<Rightarrow> byte list ret" where
  "EncodeValue (Document d) = EncodeDocument d"
| "EncodeValue (Array a) = EncodeArray a"
| "EncodeValue Null = Return None EncodeNil"
| "EncodeValue (Text s) = Return None (EncodeString s)"
| "EncodeValue (Blob b) = Return None (EncodeBytes b)"
| "EncodeValue (Bool b) = Return None (EncodeBool b)"
| "EncodeValue (Integer i) = Return None (EncodeInt64 i)"
| "EncodeValue (Double f) = Return None (EncodeFloat64 f)"
| "EncodeValue (Duration d) =
     Return None (EncodeExtHeader DurationType 8 @
         [ucast (drop_bit 56 d), ucast (drop_bit 48 d), ucast (drop_bit 40 d),
          ucast (drop_bit 32 d), ucast (drop_bit 24 d), ucast (drop_bit 16 d),
          ucast (drop_bit 8 d), ucast d])"
| "EncodeDocument d =
     reading (case d of FieldBuffer fs \<Rightarrow> Ok (length fs) | EncodedDocument bs \<Rightarrow> Length d) []
       (\<lambda>dlen.
          Iterate_doc d
            (\<lambda>(f, v) w. written (w @ EncodeString f) (EncodeValue v))
            (EncodeMapLen dlen))"
| "EncodeArray a =
     reading (case a of ValueBuffer vb \<Rightarrow> Ok (length vb) | EncodedArray bs \<Rightarrow> ArrayLength a) []
       (\<lambda>alen.
          Iterate_arr a
            (\<lambda>v w. written w (EncodeValue v))
            (EncodeArrayLen alen))"
  by pat_completeness auto
termination
  apply (relation "measure (\<lambda>x. case x of Inl v \<Rightarrow> 2 * vsz v + 1
                           | Inr (Inl d) \<Rightarrow> 2 * dsz d | Inr (Inr a) \<Rightarrow> 2 * asz a)")
  apply auto
  done


text \<open>
  The markers for which \<open>DecodeValue\<close> has a branch: the conditions of its \<open>if\<close>
  statements and the cases of its \<open>switch\<close>.
\<close>

definition recognized :: "byte \<Rightarrow> bool" where
  "recognized c \<longleftrightarrow>
     IsFixedArray c \<or> c = Array16 \<or> c = Array32 \<or>
     IsFixedMap c \<or> c = Map16 \<or> c = Map32 \<or>
     IsString c \<or> IsExt c \<or> c = Nil_c \<or>
     c = Bin8 \<or> c = Bin16 \<or> c = Bin32 \<or>
     c = True_c \<or> c = False_c \<or>
     c = Int8 \<or> c = Int16 \<or> c = Int32 \<or> c = Int64 \<or>
     c = Uint8 \<or> c = Uint16 \<or> c = Uint32 \<or> c = Uint64 \<or>
     c = Double_c"


section \<open>Big-endian payloads\<close>

lemma byte_step: "(x div 2 ^ k) mod 256 * 2 ^ k + x mod 2 ^ k = x mod 2 ^ (k + 8)" for x :: nat
proof -
  have "x mod 2 ^ (k + 8) = x mod (2 ^ k * 256)" by (simp add: power_add)
  also have "\<dots> = 2 ^ k * (x div 2 ^ k mod 256) + x mod 2 ^ k" by (rule mod_mult2_eq)
  finally show ?thesis by (simp add: mult.commute)
qed

lemma unat_byte: "unat (ucast (drop_bit k d) :: byte) = unat d div 2 ^ k mod 256" for d :: "64 word"
  unfolding unsigned_ucast_eq unat_drop_bit_eq by (simp add: take_bit_eq_mod drop_bit_eq_div)

lemma be_nat_be64: "be_nat (be64 d) = unat d"
proof -
  define x where "x = unat d"
  have lt: "x < 2 ^ 64" unfolding x_def using unsigned_less[of d] by simp
  have b0: "unat (ucast d :: byte) = x mod 256" by (simp add: unsigned_ucast_eq x_def take_bit_eq_mod)
  have e: "be_nat (be64 d) = x div 2^56 mod 256 * 2^56 + (x div 2^48 mod 256 * 2^48 + (x div 2^40 mod 256 * 2^40
     + (x div 2^32 mod 256 * 2^32 + (x div 2^24 mod 256 * 2^24 + (x div 2^16 mod 256 * 2^16 + (x div 2^8 mod 256 * 2^8 + x mod 2^8))))))"
    unfolding be64_def by (simp add: unat_byte b0 x_def[symmetric])
  have "\<dots> = x mod 2 ^ 64"
    using byte_step[of x 8] byte_step[of x 16] byte_step[of x 24] byte_step[of x 32] byte_step[of x 40] byte_step[of x 48] byte_step[of x 56]
    by simp
  with e lt show ?thesis by (simp add: x_def)
qed

lemma from_be64_be64: "from_be64 (be64 d) = d"
  unfolding from_be64_def be64_def
  apply simp
  apply (rule bit_word_eqI)
  subgoal for n
    apply (simp add: bit_simps less_diff_conv2 cong: conj_cong)
    apply (cases "bit d n"; simp)
    apply linarith
    done
  done

section \<open>Markers\<close>

lemma IsExt_exclusive:
  "IsExt c \<Longrightarrow> \<not> IsFixedArray c \<and> c \<noteq> Array16 \<and> c \<noteq> Array32 \<and> \<not> IsFixedMap c \<and>
     c \<noteq> Map16 \<and> c \<noteq> Map32 \<and> \<not> IsString c"
  unfolding IsExt_def IsFixedArray_def IsFixedMap_def IsString_def IsFixedString_def codes_defs
  by (simp add: word_le_nat_alt word_unat_eq_iff) arith

lemma unrecognized_iff: "\<not> recognized c \<longleftrightarrow> IsFixedNum c \<or> c = 0xc1 \<or> c = Float"
  unfolding recognized_def IsExt_def IsFixedArray_def IsFixedMap_def IsString_def IsFixedString_def IsFixedNum_def codes_defs
  by (simp add: word_le_nat_alt word_unat_eq_iff) arith

lemmas decode_simps = DecodeValue_def PeekCode_def readCode_def ReadFull_def read_uint_def
  read_uint64_def read_len_def bytesLen_def DecodeString_def DecodeBytes_def DecodeNil_def DecodeBool_def
  DecodeInt64_def DecodeFloat64_def parseExtLen_def DecodeExtHeader_def DecodeMapLen_def
  mapLen_def skipExtHeader_def extHeaderLen_def DecodeArrayLen_def arrayLen_def skip_header_def DecodeRaw_def DecodeDocument_def DecodeArray_def
  IsFixedNum_def IsFixedMap_def IsFixedArray_def IsFixedString_def IsString_def
  IsExt_def DurationType_def codes_defs


section \<open>Unknown extension codes and unknown markers\<close>

text \<open>
  Claim C8. An extension header whose type code is not the Duration code makes
  \<open>DecodeValue\<close> panic with "unknown custom code", and a leading marker for which
  \<open>DecodeValue\<close> has no branch makes it panic with "unsupported type": in both cases the
  decode aborts and no error value is returned. The markers without a branch are the two
  fixed-integer ranges, the unused marker 0xc1 and the 32-bit float marker.
\<close>

theorem decode_value_unknown_marker_panics:
  "(IsExt c \<and> DecodeExtHeader (c # bs) = Ok ((tp, l), r) \<and> tp \<noteq> DurationType
      \<longrightarrow> DecodeValue (c # bs) = Panic (UnknownCustomCode tp)) \<and>
   (\<not> recognized c \<longrightarrow> DecodeValue (c # bs) = Panic (UnsupportedType c))"
proof (intro conjI impI)
  assume a: "IsExt c \<and> DecodeExtHeader (c # bs) = Ok ((tp, l), r) \<and> tp \<noteq> DurationType"
  with IsExt_exclusive[of c] show "DecodeValue (c # bs) = Panic (UnknownCustomCode tp)"
    by (simp add: DecodeValue_def PeekCode_def)
next
  assume "\<not> recognized c"
  then show "DecodeValue (c # bs) = Panic (UnsupportedType c)"
    by (simp add: DecodeValue_def PeekCode_def recognized_def)
qed


theorem decode_value_unknown_marker_panics_witness:
  "IsExt 0xd4 \<and> DecodeExtHeader [0xd4, 0x02, 0x00] = Ok ((0x02, 1), [0x00]) \<and> (0x02 :: byte) \<noteq> DurationType \<and>
   DecodeValue [0xd4, 0x02, 0x00] = Panic (UnknownCustomCode 0x02) \<and>
   \<not> recognized 0xc1 \<and> DecodeValue [0xc1] = Panic (UnsupportedType 0xc1) \<and>
   \<not> recognized 0x05 \<and> DecodeValue [0x05] = Panic (UnsupportedType 0x05) \<and>
   \<not> recognized Float \<and> DecodeValue [Float, 0, 0, 0, 0] = Panic (UnsupportedType Float)"
proof -
  have 1: "IsExt 0xd4 \<and> DecodeExtHeader [0xd4, 0x02, 0x00] = Ok ((0x02, 1), [0x00]) \<and> (0x02 :: byte) \<noteq> DurationType"
    by (simp add: decode_simps)
  have 2: "\<not> recognized 0xc1" "\<not> recognized 0x05" "\<not> recognized Float"
    by (simp_all add: unrecognized_iff IsFixedNum_def)
  show ?thesis
    using 1 2 decode_value_unknown_marker_panics[of "0xd4" "[0x02, 0x00]" "0x02" 1 "[0x00]"]
      decode_value_unknown_marker_panics[of "0xc1" "[]"]
      decode_value_unknown_marker_panics[of "0x05" "[]"]
      decode_value_unknown_marker_panics[of "Float" "[0,0,0,0]"]
    by simp
qed


section \<open>The wire form of a Duration\<close>

text \<open>
  Claim C10. A Duration is written as the marker of an 8-byte extension block (0xd7), the
  type code 0x1 and eight payload bytes, which are the 64-bit nanosecond count in
  big-endian order: read back as a big-endian number they give the count's unsigned
  reading, and \<open>DecodeExtHeader\<close> reads type 0x1 and length 8 from them. The type code is
  not negative, the range MessagePack keeps for its predefined extension types; the
  marker is an extension marker, the marker of an Integer is not, and the two encodings
  differ.
\<close>

theorem duration_wire_form:
  "EncodeValue (Duration d) = Return None (0xd7 # 0x1 # be64 d) \<and>
   length (be64 d) = 8 \<and>
   be_nat (be64 d) = unat d \<and>
   from_be64 (be64 d) = d \<and>
   DecodeExtHeader (0xd7 # 0x1 # be64 d @ rest) = Ok ((DurationType, 8), be64 d @ rest) \<and>
   0 \<le> sint DurationType \<and>
   IsExt 0xd7 \<and> \<not> IsExt Int64 \<and>
   EncodeValue (Integer i) = Return None (Int64 # be64 i) \<and>
   EncodeValue (Duration d) \<noteq> EncodeValue (Integer i)"
proof -
  have enc: "EncodeValue (Duration d) = Return None (0xd7 # 0x1 # be64 d)"
    by (simp add: EncodeExtHeader_def encodeExtLen_def DurationType_def FixExt8_def be64_def)
  have hdr: "DecodeExtHeader (0xd7 # 0x1 # be64 d @ rest) = Ok ((DurationType, 8), be64 d @ rest)"
    by (simp add: DecodeExtHeader_def readCode_def parseExtLen_def DurationType_def codes_defs)
  have int: "EncodeValue (Integer i) = Return None (Int64 # be64 i)"
    by (simp add: EncodeInt64_def write8_def)
  have ne: "EncodeValue (Duration d) \<noteq> EncodeValue (Integer i)"
    unfolding enc int by (simp add: Int64_def)
  have markers: "IsExt 0xd7 \<and> \<not> IsExt Int64 \<and> 0 \<le> sint DurationType"
    by (simp add: IsExt_def DurationType_def codes_defs)
  have len: "length (be64 d) = 8" by (simp add: be64_def)
  show ?thesis
    using enc hdr int ne markers len be_nat_be64[of d] from_be64_be64[of d] by simp
qed


section \<open>Reading back what the primitives write\<close>






























section \<open>What a document and an array iterate\<close>







definition finish :: "unit result \<Rightarrow> 's ret \<Rightarrow> 's ret" where
  "finish st r = andthen r (\<lambda>s. reading st s (\<lambda>_. Return None s))"




lemma finish_Ok [simp]: "finish (Ok u) r = r"
proof (cases r)
  case (Return e s)
  then show ?thesis by (cases e) (auto simp: finish_def)
qed (auto simp: finish_def)

lemma finish_simps [simp]:
  "finish st (Return None s) = reading st s (\<lambda>_. Return None s)"
  "finish st (Return (Some e) s) = Return (Some e) s"
  "finish st (Crash p) = Crash p"
  by (simp_all add: finish_def)





























section \<open>The length prefix of an encoded document or array\<close>

text \<open>
  The visitor of \<open>EncodeDocument\<close> appends a field name and then what \<open>EncodeValue\<close>
  writes. Over a list of fields it returns nil exactly when every value encodes, and it
  has then written one (name, value) pair for each field. \<open>EncodeDocument\<close> is the listing
  of its document, the length prefix of the listed count and this iteration; a lazy handle
  whose listing fails returns the error before anything is written.
\<close>

lemma written_Nil [simp]: "written [] r = r"
  by (cases r) auto

















section \<open>Lazy decoding of documents and arrays\<close>



















section \<open>The round trip of a value\<close>

































section \<open>The collaborators of the query tree\<close>

text \<open>
  Modelled from the spec: the transaction, the table, the index, the expression evaluator,
  the scanner's tokens and the numeric conversion of a Value are not part of the sources;
  input.go only calls them. They are written here after the spec's collaborator
  interfaces.

  \<^item> A table maps a primary key to its document; \<open>GetDocument\<close> fails with a
    not-found error on an absent key.
  \<^item> An index holds its (value, primary key) pairs in ascending order of its own total
    order \<open>idx_le\<close>. \<open>AscendGreaterOrEqual\<close> and \<open>DescendLessOrEqual\<close> visit the pairs in
    ascending or descending order from an inclusive pivot, or from the start or the end
    when the pivot is nil. The visitor is called once per pair; the first error it
    returns ends the traversal and is what the traversal returns. The spec gives the index
    a stop signal that ends a traversal with success; \<open>errStop\<close> of input.go is not
    exported from its package, so the index cannot compare an error with it, and the
    sources hold no other such signal: for the index \<open>errStop\<close> is an error like any other.
  \<^item> A transaction resolves table and index names, with a not-found error for an
    unknown name.
  \<^item> An expression is evaluated against an evaluation stack; \<open>Eval\<close> counts its calls.
  \<^item> \<open>IsNumber\<close> holds of the Integer and Double tags, and converting to Double leaves a
    Double as it is, widens an Integer as Go's \<open>float64(int64)\<close> conversion does (to the
    nearest double, ties to even), and is a type mismatch otherwise.
  \<^item> The zero value of a scanner token is \<open>ILLEGAL\<close>, the first constant of the type.
\<close>

type_synonym pk = "byte list"

type_synonym table = "pk \<rightharpoonup> doc"

definition GetDocument :: "table \<Rightarrow> pk \<Rightarrow> error + doc" where
  "GetDocument tb key = (case tb key of None \<Rightarrow> Inl ErrDocumentNotFound | Some d \<Rightarrow> Inr d)"

record Index =
  entries :: "(val \<times> pk) list"
  idx_le :: "val \<Rightarrow> val \<Rightarrow> bool"

fun traverse ::
  "(val \<times> pk) list \<Rightarrow> (val \<Rightarrow> pk \<Rightarrow> 's \<Rightarrow> error option \<times> 's) \<Rightarrow> 's \<Rightarrow> error option \<times> 's" where
  "traverse [] visit s = (None, s)"
| "traverse ((v, k) # es) visit s =
     (case visit v k s of
        (None, s') \<Rightarrow> traverse es visit s'
      | (Some err, s') \<Rightarrow> (Some err, s'))"

definition AscendGreaterOrEqual ::
  "Index \<Rightarrow> val option \<Rightarrow> (val \<Rightarrow> pk \<Rightarrow> 's \<Rightarrow> error option \<times> 's) \<Rightarrow> 's \<Rightarrow> error option \<times> 's" where
  "AscendGreaterOrEqual idx pivot visit s =
     (case pivot of
        None \<Rightarrow> traverse (entries idx) visit s
      | Some p \<Rightarrow> traverse (dropWhile (\<lambda>(v, k). \<not> idx_le idx p v) (entries idx)) visit s)"

definition DescendLessOrEqual ::
  "Index \<Rightarrow> val option \<Rightarrow> (val \<Rightarrow> pk \<Rightarrow> 's \<Rightarrow> error option \<times> 's) \<Rightarrow> 's \<Rightarrow> error option \<times> 's" where
  "DescendLessOrEqual idx pivot visit s =
     (case pivot of
        None \<Rightarrow> traverse (rev (entries idx)) visit s
      | Some p \<Rightarrow> traverse (dropWhile (\<lambda>(v, k). \<not> idx_le idx v p) (rev (entries idx))) visit s)"

record transaction =
  tables :: "string \<rightharpoonup> table"
  indexes :: "string \<rightharpoonup> Index"

definition GetTable :: "transaction \<Rightarrow> string \<Rightarrow> error + table" where
  "GetTable tx name = (case tables tx name of None \<Rightarrow> Inl ErrTableNotFound | Some t \<Rightarrow> Inr t)"

definition GetIndex :: "transaction \<Rightarrow> string \<Rightarrow> error + Index" where
  "GetIndex tx name = (case indexes tx name of None \<Rightarrow> Inl ErrIndexNotFound | Some i \<Rightarrow> Inr i)"

type_synonym param = "string \<times> val"

record EvalStack =
  Tx :: transaction
  Params :: "param list"

type_synonym expr = "EvalStack \<Rightarrow> error + val"

definition Eval :: "expr \<Rightarrow> EvalStack \<Rightarrow> nat \<Rightarrow> (error + val) \<times> nat" where
  "Eval ex stack evals = (ex stack, Suc evals)"

datatype token = ILLEGAL | ASC | DESC

definition IsNumber :: "valuetype \<Rightarrow> bool" where
  "IsNumber t \<longleftrightarrow> t = IntegerValue \<or> t = DoubleValue"

fun top_bit :: "nat \<Rightarrow> nat" where
  "top_bit m = (if m < 2 then 0 else Suc (top_bit (m div 2)))"

declare top_bit.simps [simp del]

definition round_even :: "nat \<Rightarrow> nat \<Rightarrow> nat" where
  "round_even m k =
     (let q = m div 2 ^ k; r = m mod 2 ^ k
      in if 2 ^ (k - 1) < r \<or> (r = 2 ^ (k - 1) \<and> odd q) then q + 1 else q)"

definition float64_of_int64 :: "64 word \<Rightarrow> 64 word" where
  "float64_of_int64 i =
     (if i = 0 then 0
      else let m = nat \<bar>sint i\<bar>;
               ex = top_bit m;
               f = (if ex \<le> 52 then m * 2 ^ (52 - ex) else round_even m (ex - 52))
           in (if sint i < 0 then 2 ^ 63 else 0) + of_nat ((ex + 1023) * 2 ^ 52 + f - 2 ^ 52))"

definition ConvertTo :: "val \<Rightarrow> valuetype \<Rightarrow> error + val" where
  "ConvertTo v t =
     (if t = DoubleValue then
        (case v of
           Double d \<Rightarrow> Inr (Double d)
         | Integer i \<Rightarrow> Inr (Double (float64_of_int64 i))
         | _ \<Rightarrow> Inl ErrTypeMismatch)
      else if t = Type v then Inr v
      else Inl ErrTypeMismatch)"

section \<open>The index input node and the index iterator of input.go\<close>

text \<open>
  The consumer's callback \<open>fn\<close> works on a state of the consumer's own (\<open>user\<close>); the run
  state adds the log of the primary keys handed to \<open>GetDocument\<close>, in order. A call of
  \<open>Iterate\<close> returns an error or nil with the state reached, or panics. The traversal
  strategy is an interface value, nil when it was never set; calling a method of a nil
  interface panics.

  The fields of \<open>indexInputNode\<close> carry the prefix \<open>n_\<close> and those of \<open>indexIterator\<close> the
  prefix \<open>it_\<close>, since both structs name fields \<open>iop\<close>, \<open>e\<close> and \<open>orderByDirection\<close>. A
  \<open>document.Stream\<close> only wraps its iterator, so the stream is the iterator.
\<close>

record 'u run =
  fetched :: "pk list"
  user :: 'u

type_synonym 'u callback = "doc \<Rightarrow> 'u \<Rightarrow> error option \<times> 'u"

type_synonym 'u indexIteratorOperator =
  "Index \<Rightarrow> table \<Rightarrow> val \<Rightarrow> 'u callback \<Rightarrow> 'u run \<Rightarrow> 'u run ret"

record 'u indexInputNode =
  n_tableName :: string
  n_indexName :: string
  n_iop :: "'u indexIteratorOperator option"
  n_e :: "expr option"
  n_orderByDirection :: token

record 'u indexIterator =
  it_tx :: transaction
  it_tb :: table
  it_params :: "param list"
  it_index :: Index
  it_iop :: "'u indexIteratorOperator option"
  it_e :: "expr option"
  it_orderByDirection :: token

definition newIndexInputNode ::
  "string \<Rightarrow> string \<Rightarrow> 'u indexIteratorOperator option \<Rightarrow> expr option \<Rightarrow> token \<Rightarrow> 'u indexInputNode" where
  "newIndexInputNode tableName indexName iop filter_e orderByDirection =
     \<lparr>n_tableName = tableName, n_indexName = indexName, n_iop = iop, n_e = filter_e,
      n_orderByDirection = orderByDirection\<rparr>"

definition ToStream ::
  "'u indexInputNode \<Rightarrow> transaction \<Rightarrow> param list \<Rightarrow> error + 'u indexIterator" where
  "ToStream i tx params =
     (case GetTable tx (n_tableName i) of
        Inl err \<Rightarrow> Inl err
      | Inr tb \<Rightarrow>
          (case GetIndex tx (n_indexName i) of
             Inl err \<Rightarrow> Inl err
           | Inr idx \<Rightarrow>
               Inr \<lparr>it_tx = tx, it_tb = tb, it_params = params, it_index = idx,
                    it_iop = None, it_e = n_e i, it_orderByDirection = ILLEGAL\<rparr>))"

text \<open>
  The visitor that both branches of the full scan hand to the index: fetch the document
  of the key, return the fetch error if there is one, and call \<open>fn\<close> otherwise.
\<close>

definition fetch_visit :: "table \<Rightarrow> 'u callback \<Rightarrow> val \<Rightarrow> pk \<Rightarrow> 'u run \<Rightarrow> error option \<times> 'u run" where
  "fetch_visit tb fn val key s =
     (let s' = s\<lparr>fetched := fetched s @ [key]\<rparr>
      in case GetDocument tb key of
           Inl err \<Rightarrow> (Some err, s')
         | Inr r \<Rightarrow> (case fn r (user s') of (res, u) \<Rightarrow> (res, s'\<lparr>user := u\<rparr>)))"

definition Iterate :: "'u indexIterator \<Rightarrow> 'u callback \<Rightarrow> 'u run \<Rightarrow> nat \<Rightarrow> 'u run ret \<times> nat" where
  "Iterate it fn s evals =
     (case it_e it of
        None \<Rightarrow>
          (if it_orderByDirection it = DESC then
             (case DescendLessOrEqual (it_index it) None (fetch_visit (it_tb it) fn) s of
                (err, s') \<Rightarrow> (Return err s', evals))
           else
             (case AscendGreaterOrEqual (it_index it) None (fetch_visit (it_tb it) fn) s of
                (err, s') \<Rightarrow> (Return err s', evals)))
      | Some ex \<Rightarrow>
          (case Eval ex \<lparr>Tx = it_tx it, Params = it_params it\<rparr> evals of
             (Inl err, evals') \<Rightarrow> (Return (Some err) s, evals')
           | (Inr v, evals') \<Rightarrow>
               (case (if IsNumber (Type v) then ConvertTo v DoubleValue else Inr v) of
                  Inl err \<Rightarrow> (Return (Some err) s, evals')
                | Inr v' \<Rightarrow>
                    (case it_iop it of
                       None \<Rightarrow> (Crash NilDereference, evals')
                     | Some op \<Rightarrow> (op (it_index it) (it_tb it) v' fn s, evals')))))"

section \<open>Full scans of the index iterator\<close>



definition widen :: "val \<Rightarrow> val" where
  "widen v = (case v of Integer i \<Rightarrow> Double (float64_of_int64 i) | _ \<Rightarrow> v)"







section \<open>A sample database\<close>

text \<open>
  Modelled from the spec: the traversal strategies are not part of the sources. After the
  spec, the greater-than strategy \<open>gtOp\<close> seeks the bound in the index, skips the entries
  equal to the bound, and fetches and yields the documents of the others in index order.
  \<open>skipOp\<close> is another implementation of the interface, which seeks the bound and goes on
  to the next entry when the document of an entry is not found.

  The sample data are a table whose documents \<open>{a: i}\<close> are indexed on \<open>a\<close>. The sample
  indexes order Integers by their signed value and Doubles by their bit patterns, which
  is the numeric order of the non-negative doubles they hold. \<open>broken_table\<close> and
  \<open>gap_table\<close> lack the document of an indexed key. \<open>collect\<close> is a consumer that keeps
  every document, \<open>stop_after_first\<close> one that keeps a document and returns \<open>errStop\<close>.
  The filter \<open>two\<close> evaluates to the Integer 2 and the filter \<open>failing\<close> to an error.
\<close>

definition gtOp :: "'u indexIteratorOperator" where
  "gtOp idx tb v fn s =
     (case AscendGreaterOrEqual idx (Some v)
             (\<lambda>val key s'. if val = v then (None, s') else fetch_visit tb fn val key s') s of
        (err, s') \<Rightarrow> Return err s')"

definition skipOp :: "'u indexIteratorOperator" where
  "skipOp idx tb v fn s =
     (case AscendGreaterOrEqual idx (Some v)
             (\<lambda>val key s'.
                case fetch_visit tb fn val key s' of
                  (Some err, s'') \<Rightarrow>
                    if err = ErrDocumentNotFound then (None, s'') else (Some err, s'')
                | (None, s'') \<Rightarrow> (None, s'')) s of
        (err, s') \<Rightarrow> Return err s')"

definition sample_le :: "val \<Rightarrow> val \<Rightarrow> bool" where
  "sample_le a b =
     (case (a, b) of
        (Integer x, Integer y) \<Rightarrow> sint x \<le> sint y
      | (Double x, Double y) \<Rightarrow> x \<le> y
      | _ \<Rightarrow> False)"

definition doc_of :: "val \<Rightarrow> doc" where
  "doc_of v = FieldBuffer [([0x61], v)]"

definition int_index :: Index where
  "int_index =
     \<lparr>entries = [(Integer 10, [10]), (Integer 20, [20]), (Integer 30, [30])],
      idx_le = sample_le\<rparr>"

definition int_table :: table where
  "int_table =
     [[10] \<mapsto> doc_of (Integer 10), [20] \<mapsto> doc_of (Integer 20), [30] \<mapsto> doc_of (Integer 30)]"

definition broken_table :: table where
  "broken_table = [[10] \<mapsto> doc_of (Integer 10), [30] \<mapsto> doc_of (Integer 30)]"

definition int_tx :: transaction where
  "int_tx = \<lparr>tables = [''t'' \<mapsto> int_table], indexes = [''i'' \<mapsto> int_index]\<rparr>"

definition broken_tx :: transaction where
  "broken_tx = \<lparr>tables = [''t'' \<mapsto> broken_table], indexes = [''i'' \<mapsto> int_index]\<rparr>"

definition double_index :: Index where
  "double_index =
     \<lparr>entries = [(Double 0x3FF0000000000000, [1]), (Double 0x4000000000000000, [2]),
                 (Double 0x4008000000000000, [3]), (Double 0x4010000000000000, [4])],
      idx_le = sample_le\<rparr>"

definition double_table :: table where
  "double_table =
     [[1] \<mapsto> doc_of (Double 0x3FF0000000000000), [2] \<mapsto> doc_of (Double 0x4000000000000000),
      [3] \<mapsto> doc_of (Double 0x4008000000000000), [4] \<mapsto> doc_of (Double 0x4010000000000000)]"

definition gap_table :: table where
  "gap_table =
     [[1] \<mapsto> doc_of (Double 0x3FF0000000000000), [2] \<mapsto> doc_of (Double 0x4000000000000000),
      [4] \<mapsto> doc_of (Double 0x4010000000000000)]"

definition double_tx :: transaction where
  "double_tx = \<lparr>tables = [''t'' \<mapsto> double_table], indexes = [''i'' \<mapsto> double_index]\<rparr>"

definition two :: expr where
  "two stack = Inr (Integer 2)"

definition failing :: expr where
  "failing stack = Inl ErrEval"

definition collect :: "doc list callback" where
  "collect d u = (None, u @ [d])"

definition stop_after_first :: "doc list callback" where
  "stop_after_first d u = (Some ErrStop, u @ [d])"

definition start :: "doc list run" where
  "start = \<lparr>fetched = [], user = []\<rparr>"

definition full_scan :: "transaction \<Rightarrow> table \<Rightarrow> Index \<Rightarrow> token \<Rightarrow> doc list indexIterator" where
  "full_scan tx tb idx dir =
     \<lparr>it_tx = tx, it_tb = tb, it_params = [], it_index = idx, it_iop = None, it_e = None,
      it_orderByDirection = dir\<rparr>"

definition filtered_scan ::
  "table \<Rightarrow> doc list indexIteratorOperator option \<Rightarrow> expr \<Rightarrow> doc list indexIterator" where
  "filtered_scan tb iop ex =
     \<lparr>it_tx = double_tx, it_tb = tb, it_params = [], it_index = double_index, it_iop = iop,
      it_e = Some ex, it_orderByDirection = ILLEGAL\<rparr>"

lemmas sample_defs = gtOp_def skipOp_def sample_le_def doc_of_def int_index_def int_table_def
  broken_table_def int_tx_def broken_tx_def double_index_def double_table_def gap_table_def
  double_tx_def two_def failing_def collect_def stop_after_first_def start_def full_scan_def
  filtered_scan_def

lemma float64_of_2: "float64_of_int64 2 = 0x4000000000000000"
  by (simp add: float64_of_int64_def top_bit.simps round_even_def Let_def)

lemma Iterate_evals: "it_e it = Some ex \<Longrightarrow> snd (Iterate it fn s n) = Suc n"
  by (simp add: Iterate_def Eval_def split: sum.splits option.splits)

lemma Iterate_bound:
  "it_e it = Some ex \<Longrightarrow> ex \<lparr>Tx = it_tx it, Params = it_params it\<rparr> = Inr v \<Longrightarrow>
   Iterate it fn s n =
     (case it_iop it of
        None \<Rightarrow> Crash NilDereference
      | Some op \<Rightarrow> op (it_index it) (it_tb it) (widen v) fn s, Suc n)"
  by (cases v; cases "it_iop it")
    (simp_all add: Iterate_def Eval_def IsNumber_def ConvertTo_def widen_def)

lemma Iterate_eval_error:
  "it_e it = Some ex \<Longrightarrow> ex \<lparr>Tx = it_tx it, Params = it_params it\<rparr> = Inl err \<Longrightarrow>
   Iterate it fn s n = (Return (Some err) s, Suc n)"
  by (simp add: Iterate_def Eval_def)

section \<open>The filter of an index iterator\<close>

text \<open>
  Claim C2, as stated, has the filter evaluated once for each stream that is built. The
  expression is evaluated in \<open>Iterate\<close>, so once more at every iteration of the stream:
  the stream that \<open>ToStream\<close> builds for a node whose filter fails to evaluate, and an
  iterator that holds the greater-than strategy and the filter Integer 2, both count two
  evaluations after two iterations.
\<close>

theorem filter_evaluated_again_at_second_iteration:
  "ToStream (newIndexInputNode ''t'' ''i'' (Some gtOp) (Some failing) ASC) double_tx [] =
     Inr (filtered_scan double_table None failing) \<and>
   Iterate (filtered_scan double_table None failing) collect start 0 =
     (Return (Some ErrEval) start, 1) \<and>
   Iterate (filtered_scan double_table None failing) collect start 1 =
     (Return (Some ErrEval) start, 2) \<and>
   Iterate (filtered_scan double_table (Some gtOp) two) collect start 0 =
     (Return None \<lparr>fetched = [[3], [4]],
        user = [doc_of (Double 0x4008000000000000), doc_of (Double 0x4010000000000000)]\<rparr>, 1) \<and>
   Iterate (filtered_scan double_table (Some gtOp) two) collect start 1 =
     (Return None \<lparr>fetched = [[3], [4]],
        user = [doc_of (Double 0x4008000000000000), doc_of (Double 0x4010000000000000)]\<rparr>, 2)"
  by (simp add: ToStream_def newIndexInputNode_def GetTable_def GetIndex_def sample_defs
      Iterate_def Eval_def IsNumber_def ConvertTo_def float64_of_2 AscendGreaterOrEqual_def
      fetch_visit_def GetDocument_def)

text \<open>
  Claim C2. A call of \<open>Iterate\<close> on an index iterator with a filter expression evaluates
  the expression exactly once, whatever the number of rows and whatever the call returns,
  so a second call evaluates it a second time. When the evaluation fails, \<open>Iterate\<close>
  returns its error. Otherwise the value is handed to the traversal strategy that the
  iterator holds after an Integer has been widened to Double, and the result of \<open>Iterate\<close>
  is the strategy's; an iterator that holds no strategy panics there. With the filter
  Integer 2, the greater-than strategy and an index over the Doubles 1, 2, 3 and 4, the
  documents of 3 and 4 are yielded.
\<close>

theorem filter_evaluated_once_and_widened:
  assumes "it_e it = Some ex"
  shows "snd (Iterate it fn s n) = Suc n \<and>
         snd (Iterate it fn' s' (snd (Iterate it fn s n))) = Suc (Suc n) \<and>
         (ex \<lparr>Tx = it_tx it, Params = it_params it\<rparr> = Inl err \<longrightarrow>
            fst (Iterate it fn s n) = Return (Some err) s) \<and>
         (ex \<lparr>Tx = it_tx it, Params = it_params it\<rparr> = Inr v \<longrightarrow>
            fst (Iterate it fn s n) =
              (case it_iop it of
                 None \<Rightarrow> Crash NilDereference
               | Some op \<Rightarrow> op (it_index it) (it_tb it) (widen v) fn s)) \<and>
         widen v = (case v of Integer i \<Rightarrow> Double (float64_of_int64 i) | _ \<Rightarrow> v) \<and>
         Type (widen v) = (if IsNumber (Type v) then DoubleValue else Type v)"
proof -
  have 1: "snd (Iterate it fn s n) = Suc n"
    by (rule Iterate_evals[OF assms])
  have 2: "snd (Iterate it fn' s' (snd (Iterate it fn s n))) = Suc (Suc n)"
    by (simp add: Iterate_evals[OF assms])
  have 3: "ex \<lparr>Tx = it_tx it, Params = it_params it\<rparr> = Inl err \<longrightarrow>
            fst (Iterate it fn s n) = Return (Some err) s"
    using Iterate_eval_error[OF assms, of err fn s n] by simp
  have 4: "ex \<lparr>Tx = it_tx it, Params = it_params it\<rparr> = Inr v \<longrightarrow>
            fst (Iterate it fn s n) =
              (case it_iop it of
                 None \<Rightarrow> Crash NilDereference
               | Some op \<Rightarrow> op (it_index it) (it_tb it) (widen v) fn s)"
    using Iterate_bound[OF assms, of v fn s n] by simp
  have 5: "widen v = (case v of Integer i \<Rightarrow> Double (float64_of_int64 i) | _ \<Rightarrow> v) \<and>
         Type (widen v) = (if IsNumber (Type v) then DoubleValue else Type v)"
    by (cases v) (simp_all add: widen_def IsNumber_def)
  from 1 2 3 4 5 show ?thesis by (intro conjI) blast+
qed

theorem filter_evaluated_once_and_widened_witness:
  "ToStream (newIndexInputNode ''t'' ''i'' (Some gtOp) (Some two) ASC) double_tx [] =
     Inr (filtered_scan double_table None two) \<and>
   snd (Iterate (filtered_scan double_table None two) collect start 0) = 1 \<and>
   snd (Iterate (filtered_scan double_table None two) collect start
          (snd (Iterate (filtered_scan double_table None two) collect start 0))) = 2 \<and>
   fst (Iterate (filtered_scan double_table None failing) collect start 0) =
     Return (Some ErrEval) start \<and>
   Iterate (filtered_scan double_table (Some gtOp) two) collect start 0 =
     (Return None \<lparr>fetched = [[3], [4]],
        user = [doc_of (Double 0x4008000000000000), doc_of (Double 0x4010000000000000)]\<rparr>, 1) \<and>
   widen (Integer 2) = Double 0x4000000000000000"
proof -
  let ?ts = "filtered_scan double_table None two"
  let ?tf = "filtered_scan double_table None failing"
  let ?hb = "filtered_scan double_table (Some gtOp) two"
  have b: "ToStream (newIndexInputNode ''t'' ''i'' (Some gtOp) (Some two) ASC) double_tx [] = Inr ?ts"
    by (simp add: ToStream_def newIndexInputNode_def GetTable_def GetIndex_def double_tx_def
        filtered_scan_def)
  have w: "widen (Integer 2) = Double 0x4000000000000000"
    by (simp add: widen_def float64_of_2)
  have op: "gtOp double_index double_table (Double 0x4000000000000000) collect start =
     Return None \<lparr>fetched = [[3], [4]],
        user = [doc_of (Double 0x4008000000000000), doc_of (Double 0x4010000000000000)]\<rparr>"
    by (simp add: sample_defs AscendGreaterOrEqual_def fetch_visit_def GetDocument_def)
  have h: "it_e ?ts = Some two" "it_e ?tf = Some failing" "it_e ?hb = Some two"
    "failing \<lparr>Tx = it_tx ?tf, Params = it_params ?tf\<rparr> = Inl ErrEval"
    "two \<lparr>Tx = it_tx ?hb, Params = it_params ?hb\<rparr> = Inr (Integer 2)" "it_iop ?hb = Some gtOp"
    "it_index ?hb = double_index" "it_tb ?hb = double_table"
    by (simp_all add: filtered_scan_def two_def failing_def)
  note t1 = filter_evaluated_once_and_widened[OF h(1), of collect start 0 collect start]
  note t2 = filter_evaluated_once_and_widened[OF h(2), of collect start 0 collect start ErrEval]
  note t3 = filter_evaluated_once_and_widened[OF h(3), of collect start 0 collect start _
      "Integer 2"]
  have e1: "snd (Iterate ?ts collect start 0) = 1"
    using t1[THEN conjunct1] by simp
  have e2: "snd (Iterate ?ts collect start (snd (Iterate ?ts collect start 0))) = 2"
    using t1[THEN conjunct2, THEN conjunct1] by simp
  have e3: "fst (Iterate ?tf collect start 0) = Return (Some ErrEval) start"
    using t2[THEN conjunct2, THEN conjunct2, THEN conjunct1] h(4) by simp
  have e4: "fst (Iterate ?hb collect start 0) =
     Return None \<lparr>fetched = [[3], [4]],
        user = [doc_of (Double 0x4008000000000000), doc_of (Double 0x4010000000000000)]\<rparr>"
    using t3[THEN conjunct2, THEN conjunct2, THEN conjunct2, THEN conjunct1] h(5,6,7,8) w op
    by simp
  have e5: "snd (Iterate ?hb collect start 0) = 1"
    using t3[THEN conjunct1] by simp
  have e6: "Iterate ?hb collect start 0 =
     (Return None \<lparr>fetched = [[3], [4]],
        user = [doc_of (Double 0x4008000000000000), doc_of (Double 0x4010000000000000)]\<rparr>, 1)"
    using e4 e5 by (simp add: prod_eq_iff)
  from b e1 e2 e3 e6 w show ?thesis by (intro conjI)
qed


section \<open>Early stop\<close>




section \<open>An index entry without its document\<close>




section \<open>The iterator built by ToStream\<close>

text \<open>
  \<open>ToStream\<close> fills the transaction, the table, the parameters, the index and the filter
  of the iterator. It does not copy the node's traversal strategy nor its ordering
  direction, which keep their zero values.
\<close>

lemma ToStream_iterator:
  "ToStream i tx ps = Inr it \<Longrightarrow>
   it_iop it = None \<and> it_orderByDirection it = ILLEGAL \<and> it_e it = n_e i \<and>
   GetTable tx (n_tableName i) = Inr (it_tb it) \<and> GetIndex tx (n_indexName i) = Inr (it_index it)"
  by (auto simp: ToStream_def split: sum.splits)

text \<open>
  Claim C3. For a node built with a filter and the greater-than strategy on a transaction
  that has the table and the index, \<open>ToStream\<close> succeeds, and iterating the stream
  evaluates the filter and then panics on the nil strategy: the seek is not delegated and
  no document is yielded.
\<close>

theorem ToStream_filtered_stream_panics:
  "ToStream (newIndexInputNode ''t'' ''i'' (Some gtOp) (Some two) ASC) double_tx [] =
     Inr \<lparr>it_tx = double_tx, it_tb = double_table, it_params = [], it_index = double_index,
          it_iop = None, it_e = Some two, it_orderByDirection = ILLEGAL\<rparr> \<and>
   Iterate \<lparr>it_tx = double_tx, it_tb = double_table, it_params = [], it_index = double_index,
          it_iop = None, it_e = Some two, it_orderByDirection = ILLEGAL\<rparr> collect start 0 =
     (Crash NilDereference, 1)"
  by (simp add: ToStream_def newIndexInputNode_def GetTable_def GetIndex_def double_tx_def
      Iterate_def Eval_def two_def IsNumber_def ConvertTo_def)

text \<open>
  Claim C4. For a node built without a filter and with the descending direction over the
  indexed keys 10, 20 and 30, iterating the stream of \<open>ToStream\<close> yields the documents in
  the order 10, 20, 30. An iterator whose direction field is \<open>DESC\<close> yields 30, 20, 10.
\<close>

theorem ToStream_descending_scan_ascends:
  "ToStream (newIndexInputNode ''t'' ''i'' None None DESC) int_tx [] =
     Inr (full_scan int_tx int_table int_index ILLEGAL) \<and>
   Iterate (full_scan int_tx int_table int_index ILLEGAL) collect start 0 =
     (Return None \<lparr>fetched = [[10], [20], [30]],
        user = [doc_of (Integer 10), doc_of (Integer 20), doc_of (Integer 30)]\<rparr>, 0) \<and>
   Iterate (full_scan int_tx int_table int_index DESC) collect start 0 =
     (Return None \<lparr>fetched = [[30], [20], [10]],
        user = [doc_of (Integer 30), doc_of (Integer 20), doc_of (Integer 10)]\<rparr>, 0)"
  by (simp add: ToStream_def newIndexInputNode_def GetTable_def GetIndex_def sample_defs
      Iterate_def AscendGreaterOrEqual_def DescendLessOrEqual_def fetch_visit_def
      GetDocument_def)


end
